theory Spec2Isabelle
  imports Complex_Main
begin

section \<open>Numeric values\<close>

text \<open>
  The rasters of \<^verbatim>\<open>utils.py\<close> are numpy arrays of floating-point numbers. A cell of
  an input raster is modelled as a finite number, a \<^typ>\<open>real\<close>: rounding and overflow
  are left out, as are signed zeros, and the arithmetic on finite values is exact. What
  numpy does at a singularity is kept: dividing an array by zero raises nothing, it gives
  \<^verbatim>\<open>inf\<close>, \<^verbatim>\<open>-inf\<close> or \<^verbatim>\<open>nan\<close> at that cell (with a warning). So a computed
  cell is a finite number or one of the three special values of IEEE 754.
\<close>

datatype fval = Fin real | PInf | NInf | NaN

fun is_finite :: "fval \<Rightarrow> bool" where
  "is_finite (Fin a) = True"
| "is_finite PInf = False"
| "is_finite NInf = False"
| "is_finite NaN = False"

fun fneg :: "fval \<Rightarrow> fval" where
  "fneg (Fin a) = Fin (- a)"
| "fneg PInf = NInf"
| "fneg NInf = PInf"
| "fneg NaN = NaN"

fun fadd :: "fval \<Rightarrow> fval \<Rightarrow> fval" where
  "fadd (Fin a) (Fin b) = Fin (a + b)"
| "fadd (Fin a) PInf = PInf"
| "fadd (Fin a) NInf = NInf"
| "fadd PInf (Fin b) = PInf"
| "fadd NInf (Fin b) = NInf"
| "fadd PInf PInf = PInf"
| "fadd NInf NInf = NInf"
| "fadd PInf NInf = NaN"
| "fadd NInf PInf = NaN"
| "fadd NaN y = NaN"
| "fadd x NaN = NaN"

definition fsub :: "fval \<Rightarrow> fval \<Rightarrow> fval" where
  "fsub x y = fadd x (fneg y)"

fun fmul :: "fval \<Rightarrow> fval \<Rightarrow> fval" where
  "fmul (Fin a) (Fin b) = Fin (a * b)"
| "fmul (Fin a) PInf = (if a = 0 then NaN else if 0 < a then PInf else NInf)"
| "fmul (Fin a) NInf = (if a = 0 then NaN else if 0 < a then NInf else PInf)"
| "fmul PInf (Fin b) = (if b = 0 then NaN else if 0 < b then PInf else NInf)"
| "fmul NInf (Fin b) = (if b = 0 then NaN else if 0 < b then NInf else PInf)"
| "fmul PInf PInf = PInf"
| "fmul NInf NInf = PInf"
| "fmul PInf NInf = NInf"
| "fmul NInf PInf = NInf"
| "fmul NaN y = NaN"
| "fmul x NaN = NaN"

text \<open>
  Division of array cells: a finite number over zero is an infinity of the sign of the
  numerator, zero over zero is \<^verbatim>\<open>nan\<close>; nothing is raised.
\<close>

fun fdiv :: "fval \<Rightarrow> fval \<Rightarrow> fval" where
  "fdiv (Fin a) (Fin b) =
     (if b = 0 then (if a = 0 then NaN else if 0 < a then PInf else NInf)
      else Fin (a / b))"
| "fdiv (Fin a) PInf = Fin 0"
| "fdiv (Fin a) NInf = Fin 0"
| "fdiv PInf (Fin b) = (if 0 \<le> b then PInf else NInf)"
| "fdiv NInf (Fin b) = (if 0 \<le> b then NInf else PInf)"
| "fdiv PInf PInf = NaN"
| "fdiv NInf NInf = NaN"
| "fdiv PInf NInf = NaN"
| "fdiv NInf PInf = NaN"
| "fdiv NaN y = NaN"
| "fdiv x NaN = NaN"

text \<open>The comparison \<^verbatim>\<open><\<close> of IEEE 754: false as soon as one side is \<^verbatim>\<open>nan\<close>.\<close>

fun fless :: "fval \<Rightarrow> fval \<Rightarrow> bool" where
  "fless (Fin a) (Fin b) = (a < b)"
| "fless (Fin a) PInf = True"
| "fless NInf (Fin b) = True"
| "fless NInf PInf = True"
| "fless (Fin a) NInf = False"
| "fless PInf y = False"
| "fless NInf NInf = False"
| "fless NaN y = False"
| "fless x NaN = False"

section \<open>Errors and arrays\<close>

text \<open>
  \<^verbatim>\<open>utils.py\<close> has no \<^verbatim>\<open>raise\<close> statement. The exceptions its two calculation
  functions can end with are those of the operations they use: \<open>IndexError\<close> of a list
  read out of range, \<open>ValueError\<close> of two arrays whose shapes do not broadcast.
  \<open>DomainError\<close> is the error kind the specification names; no operation of the
  source produces it.
\<close>

datatype error = IndexError | ValueError | DomainError

definition ebind :: "error + 'a \<Rightarrow> ('a \<Rightarrow> error + 'b) \<Rightarrow> error + 'b" where
  "ebind m f = (case m of Inl e \<Rightarrow> Inl e | Inr v \<Rightarrow> f v)"

text \<open>
  A raster is modelled as a one-dimensional array, the list of its cells; its shape is
  its length. An elementwise operation of numpy on two such arrays pairs the cells when
  the lengths agree, repeats the single cell of an array of length one, and raises
  \<open>ValueError\<close> otherwise.
\<close>

definition broadcast2 :: "('a \<Rightarrow> 'b \<Rightarrow> 'c) \<Rightarrow> 'a list \<Rightarrow> 'b list \<Rightarrow> error + 'c list" where
  "broadcast2 f xs ys =
     (if length xs = length ys then Inr (map2 f xs ys)
      else if length xs = 1 then Inr (map (f (hd xs)) ys)
      else if length ys = 1 then Inr (map (\<lambda>x. f x (hd ys)) xs)
      else Inl ValueError)"

section \<open>cal_subsurface_flow_depth\<close>

text \<open>
  The defaults of the signature:
  \<^verbatim>\<open>layer_threshold=[0, 0.07, 0.28, 1, 2], porosity=0.5\<close>.
\<close>

definition default_layer_threshold :: "real list" where
  "default_layer_threshold = [0, 7 / 100, 28 / 100, 1, 2]"

definition default_porosity :: real where
  "default_porosity = 1 / 2"

text \<open>
  One cell of the loop body, lines 48 to 51, for the bracket \<open>lo = layer_threshold[i]\<close>,
  \<open>hi = layer_threshold[i + 1]\<close>, in the order of the source: first the cells at or
  above \<open>hi\<close> are set to \<open>hi\<close>, then the cells at or below \<open>lo\<close> are set to
  \<open>lo\<close>, then \<open>lo\<close> is subtracted.
\<close>

definition soil_layer_cell :: "real \<Rightarrow> real \<Rightarrow> real \<Rightarrow> real" where
  "soil_layer_cell lo hi x =
     (let x1 = (if x \<ge> hi then hi else x);
          x2 = (if x1 \<le> lo then lo else x1)
      in x2 - lo)"

text \<open>
  One iteration of the loop. \<open>layer_threshold\<close> is a Python list and \<open>i\<close> is not
  negative: \<open>layer_threshold[i + 1]\<close> raises \<open>IndexError\<close> when \<open>i + 1\<close> is not
  below the length of the list, whatever the raster holds.
\<close>

definition soil_layer_at :: "real list \<Rightarrow> real list \<Rightarrow> nat \<Rightarrow> error + real list" where
  "soil_layer_at layer_threshold soil_depth i =
     (if i + 1 < length layer_threshold
      then Inr (map (soil_layer_cell (layer_threshold ! i) (layer_threshold ! (i + 1))) soil_depth)
      else Inl IndexError)"

text \<open>The loop over \<open>range(0, len(soil_water_layer))\<close>, filling \<open>soil_depth_layer\<close>.\<close>

fun soil_depth_layer_loop :: "real list \<Rightarrow> real list \<Rightarrow> nat list \<Rightarrow> error + real list list" where
  "soil_depth_layer_loop layer_threshold soil_depth [] = Inr []"
| "soil_depth_layer_loop layer_threshold soil_depth (i # rest) =
     (case soil_layer_at layer_threshold soil_depth i of
        Inl e \<Rightarrow> Inl e
      | Inr soil_layer \<Rightarrow>
          (case soil_depth_layer_loop layer_threshold soil_depth rest of
             Inl e \<Rightarrow> Inl e
           | Inr layers \<Rightarrow> Inr (soil_layer # layers)))"

text \<open>
  The moisture stack \<open>soil_water_layer\<close> is a two-dimensional array of shape \<open>(L, m)\<close>:
  its \<open>L\<close> rows, one per layer, and the row width \<open>m\<close>, which an array has also when
  it has no row (\<^verbatim>\<open>np.empty((0, 3))\<close> is \<open>Stack 3 []\<close>). \<open>len(soil_water_layer)\<close> is
  the number of rows. A Python list of rows becomes such an array in the product below:
  a list of \<open>L > 0\<close> rows of length \<open>m\<close> has shape \<open>(L, m)\<close>; the empty list has shape
  \<open>(0,)\<close>, which broadcasts against \<open>soil_depth_layer\<close> exactly as shape \<open>(0, 0)\<close> does,
  so it is \<open>Stack 0 []\<close>. Rows whose lengths differ from the width do not form an array,
  and the product raises \<open>ValueError\<close>.
\<close>

datatype stack = Stack (stack_width: nat) (stack_rows: "real list list")

text \<open>
  The last dimension of the product of shapes \<open>(L, m)\<close> and \<open>(L, n)\<close>: the common width,
  or the other width when one of them is 1; other widths do not broadcast.
\<close>

definition broadcast_width :: "nat \<Rightarrow> nat \<Rightarrow> error + nat" where
  "broadcast_width m n =
     (if m = n then Inr n
      else if m = 1 then Inr n
      else if n = 1 then Inr m
      else Inl ValueError)"

text \<open>
  \<open>soil_water_layer * soil_depth_layer\<close>, where \<open>soil_depth_layer\<close> has shape
  \<open>(L, n)\<close>: the rows are multiplied pairwise, cells broadcast as above.
\<close>

fun multiply_layers :: "real list list \<Rightarrow> real list list \<Rightarrow> error + real list list" where
  "multiply_layers (w # ws) (d # ds) =
     (case broadcast2 (*) w d of
        Inl e \<Rightarrow> Inl e
      | Inr row \<Rightarrow>
          (case multiply_layers ws ds of
             Inl e \<Rightarrow> Inl e
           | Inr rows \<Rightarrow> Inr (row # rows)))"
| "multiply_layers ws ds = Inr []"

text \<open>
  \<open>np.sum(water_depth_layer, axis=0)\<close>: the sum of the rows, cell by cell, from zero.
  The sum of no row is a row of zeros, as wide as the product.
\<close>

definition sum_axis0 :: "nat \<Rightarrow> fval list list \<Rightarrow> fval list" where
  "sum_axis0 width rows = foldr (\<lambda>row acc. map2 fadd row acc) rows (replicate width (Fin 0))"

text \<open>
  The function: the loop first, so that its \<open>IndexError\<close> comes before anything the
  product raises; then the product, whose shapes must broadcast also when the stack has
  no row; then the division by the porosity and the sum.
\<close>

definition cal_subsurface_flow_depth ::
  "real list \<Rightarrow> stack \<Rightarrow> real list \<Rightarrow> real \<Rightarrow> error + fval list" where
  "cal_subsurface_flow_depth soil_depth soil_water_layer layer_threshold porosity =
     ebind (soil_depth_layer_loop layer_threshold soil_depth
              [0 ..< length (stack_rows soil_water_layer)])
       (\<lambda>soil_depth_layer.
          if \<not> list_all (\<lambda>row. length row = stack_width soil_water_layer)
                 (stack_rows soil_water_layer)
          then Inl ValueError
          else ebind (broadcast_width (stack_width soil_water_layer) (length soil_depth))
            (\<lambda>width.
          ebind (multiply_layers (stack_rows soil_water_layer) soil_depth_layer)
            (\<lambda>product.
               let water_depth_layer = map (map (\<lambda>x. fdiv (Fin x) (Fin porosity))) product
               in Inr (sum_axis0 width water_depth_layer))))"

section \<open>cal_safety_factor\<close>

text \<open>
  The defaults of the signature: \<^verbatim>\<open>root_cohesion=5000, soil_cohesion=5000,
  soil_bulk_density=1300, water_density=1000, gravity_acceleration=9.806,
  soil_internal_friction_angle=35\<close>.
\<close>

record material =
  root_cohesion :: real
  soil_cohesion :: real
  soil_bulk_density :: real
  water_density :: real
  gravity_acceleration :: real
  soil_internal_friction_angle :: real

definition default_material :: material where
  "default_material =
     \<lparr> root_cohesion = 5000, soil_cohesion = 5000, soil_bulk_density = 1300,
       water_density = 1000, gravity_acceleration = 9806 / 1000,
       soil_internal_friction_angle = 35 \<rparr>"

text \<open>
  The body of \<open>cal_safety_factor\<close>, statement by statement, on whole arrays.
  \<open>np.tan\<close> of a finite number is a finite number. Every division is a division of
  arrays, so a zero divisor gives a special value and no exception.
\<close>

definition cal_safety_factor ::
  "real list \<Rightarrow> real list \<Rightarrow> real list \<Rightarrow> material \<Rightarrow> error + fval list" where
  "cal_safety_factor slope_angle subsurface_flow_depth soil_depth p =
     (let tan_fi = Fin (tan (soil_internal_friction_angle p * pi / 180));
          sin_slope = map (\<lambda>a. Fin (sin a)) slope_angle;
          cos_slope = map (\<lambda>a. Fin (cos a)) slope_angle
      in
      ebind (broadcast2 fdiv (map Fin subsurface_flow_depth) (map Fin soil_depth))
        (\<lambda>relative_wetness.
      ebind (broadcast2 fdiv
               (map (\<lambda>d. fdiv (Fin (root_cohesion p + soil_cohesion p))
                       (fmul (fmul (Fin d) (Fin (soil_bulk_density p)))
                          (Fin (gravity_acceleration p))))
                  soil_depth)
               sin_slope)
        (\<lambda>left_term.
      ebind (broadcast2 fmul
               (map (\<lambda>c. fmul c tan_fi) cos_slope)
               (map (\<lambda>w. fsub (Fin 1)
                       (fdiv (fmul w (Fin (water_density p))) (Fin (soil_bulk_density p))))
                  relative_wetness))
        (\<lambda>numerator.
      ebind (broadcast2 fdiv numerator sin_slope)
        (\<lambda>right_term.
      broadcast2 fadd left_term right_term)))))"

text \<open>
  One cell of the body of \<open>cal_safety_factor\<close>: the five statements of the source on
  the cell's slope angle \<open>a\<close>, flow depth \<open>w\<close> and soil depth \<open>d\<close>. It is what the
  array program computes at a cell when the three rasters have one shape.
\<close>

definition safety_factor_cell :: "real \<Rightarrow> real \<Rightarrow> real \<Rightarrow> material \<Rightarrow> fval" where
  "safety_factor_cell a w d p =
     (let tan_fi = Fin (tan (soil_internal_friction_angle p * pi / 180));
          relative_wetness = fdiv (Fin w) (Fin d);
          left_term = fdiv (fdiv (Fin (root_cohesion p + soil_cohesion p))
                        (fmul (fmul (Fin d) (Fin (soil_bulk_density p)))
                           (Fin (gravity_acceleration p))))
                      (Fin (sin a));
          right_term = fdiv (fmul (fmul (Fin (cos a)) tan_fi)
                         (fsub (Fin 1)
                            (fdiv (fmul relative_wetness (Fin (water_density p)))
                               (Fin (soil_bulk_density p)))))
                       (Fin (sin a))
      in fadd left_term right_term)"

section \<open>The worked aggregation example\<close>

text \<open>
  C2. One cell of soil depth 1, one moisture layer \<open>[0.2]\<close> whose bracket is the depth
  0 to 1 (thresholds \<open>[0, 1]\<close>), porosity 0.5: the flow depth is
  \<open>(1 * 0.2) / 0.5 = 0.4\<close>.
\<close>

theorem worked_aggregation_example:
  "cal_subsurface_flow_depth [1] (Stack 1 [[2 / 10]]) [0, 1] (1 / 2) = Inr [Fin (4 / 10)]"
  by (simp add: cal_subsurface_flow_depth_def ebind_def soil_layer_at_def soil_layer_cell_def
      broadcast_width_def broadcast2_def sum_axis0_def)

text \<open>
  With the default thresholds the only layer of that stack is the bracket 0 to 0.07, and
  the same cell gives \<open>(0.07 * 0.2) / 0.5 = 0.028\<close>.
\<close>

lemma single_layer_default_thresholds:
  "cal_subsurface_flow_depth [1] (Stack 1 [[2 / 10]]) default_layer_threshold default_porosity
     = Inr [Fin (28 / 1000)]"
  by (simp add: cal_subsurface_flow_depth_def ebind_def soil_layer_at_def soil_layer_cell_def
      broadcast_width_def broadcast2_def sum_axis0_def default_layer_threshold_def
      default_porosity_def)

section \<open>The loop and the array operations on conforming shapes\<close>

lemma loop_ok:
  "\<forall>i \<in> set idx. i + 1 < length thr \<Longrightarrow>
   soil_depth_layer_loop thr sd idx =
     Inr (map (\<lambda>i. map (soil_layer_cell (thr ! i) (thr ! (i + 1))) sd) idx)"
  by (induction idx) (simp_all add: soil_layer_at_def)

lemma loop_fail:
  "\<exists>i \<in> set idx. \<not> i + 1 < length thr \<Longrightarrow>
   soil_depth_layer_loop thr sd idx = Inl IndexError"
proof (induction idx)
  case Nil
  then show ?case by simp
next
  case (Cons i rest)
  show ?case
  proof (cases "i + 1 < length thr")
    case True
    with Cons.prems have "\<exists>j \<in> set rest. \<not> j + 1 < length thr" by auto
    with Cons.IH True show ?thesis by (simp add: soil_layer_at_def)
  next
    case False
    then show ?thesis by (simp add: soil_layer_at_def)
  qed
qed

lemma loop_errors:
  "soil_depth_layer_loop thr sd idx = Inl e \<Longrightarrow> e = IndexError"
  by (induction idx arbitrary: e) (auto simp: soil_layer_at_def split: if_splits sum.splits)

lemma multiply_layers_errors:
  "multiply_layers ws ds = Inl e \<Longrightarrow> e = ValueError"
  by (induction ws ds arbitrary: e rule: multiply_layers.induct)
     (auto simp: broadcast2_def split: if_splits sum.splits)

lemma multiply_layers_conforming:
  "length ws = length ds \<Longrightarrow> \<forall>w \<in> set ws. length w = n \<Longrightarrow> \<forall>d \<in> set ds. length d = n \<Longrightarrow>
   multiply_layers ws ds = Inr (map2 (map2 (*)) ws ds)"
  by (induction ws ds rule: list_induct2) (simp_all add: broadcast2_def)

lemma sum_axis0_Fin:
  "\<forall>row \<in> set rows. length row = n \<Longrightarrow>
   sum_axis0 n (map (map Fin) rows) = map (\<lambda>c. Fin (\<Sum>row\<leftarrow>rows. row ! c)) [0 ..< n]"
proof (induction rows)
  case Nil
  then show ?case by (auto simp: sum_axis0_def intro!: nth_equalityI)
next
  case (Cons row rows)
  then have IH: "sum_axis0 n (map (map Fin) rows) = map (\<lambda>c. Fin (\<Sum>row\<leftarrow>rows. row ! c)) [0 ..< n]"
    and len: "length row = n" by simp_all
  have "sum_axis0 n (map (map Fin) (row # rows)) = map2 fadd (map Fin row) (sum_axis0 n (map (map Fin) rows))"
    by (simp add: sum_axis0_def)
  also have "\<dots> = map (\<lambda>c. Fin (\<Sum>r\<leftarrow>row # rows. r ! c)) [0 ..< n]"
    unfolding IH using len by (auto intro!: nth_equalityI)
  finally show ?case .
qed


lemma cal_subsurface_flow_depth_value:
  assumes idx: "\<forall>i < length swl. i + 1 < length thr"
    and shape: "\<forall>w \<in> set swl. length w = length sd"
    and p: "p \<noteq> 0"
  shows "cal_subsurface_flow_depth sd (Stack (length sd) swl) thr p =
     Inr (map (\<lambda>c. Fin ((\<Sum>i < length swl. swl ! i ! c * soil_layer_cell (thr ! i) (thr ! (i + 1)) (sd ! c)) / p))
            [0 ..< length sd])"
proof -
  define layers where "layers = map (\<lambda>i. map (soil_layer_cell (thr ! i) (thr ! (i + 1))) sd) [0 ..< length swl]"
  define product where "product = map2 (map2 (*)) swl layers"
  define rows where "rows = map (map (\<lambda>x. x / p)) product"
  have loop: "soil_depth_layer_loop thr sd [0 ..< length swl] = Inr layers"
    unfolding layers_def using idx by (intro loop_ok) simp
  have len_layers: "length layers = length swl" by (simp add: layers_def)
  have shape_layers: "\<forall>d \<in> set layers. length d = length sd" by (auto simp: layers_def)
  have mul: "multiply_layers swl layers = Inr product"
    unfolding product_def using len_layers shape shape_layers
    by (intro multiply_layers_conforming[where n = "length sd"]) simp_all
  have len_product: "length product = length swl" by (simp add: product_def len_layers)
  have shape_rows: "\<forall>row \<in> set rows. length row = length sd"
  proof
    fix row assume "row \<in> set rows"
    then obtain w d where wd: "(w, d) \<in> set (zip swl layers)" and row: "row = map (\<lambda>x. x / p) (map2 (*) w d)"
      by (auto simp: rows_def product_def)
    from wd have "w \<in> set swl" "d \<in> set layers" by (auto dest: set_zip_leftD set_zip_rightD)
    with shape shape_layers have "length w = length sd" "length d = length sd" by auto
    with row show "length row = length sd" by simp
  qed
  have water: "map (map (\<lambda>x. fdiv (Fin x) (Fin p))) product = map (map Fin) rows"
    using p by (simp add: rows_def)
  have "cal_subsurface_flow_depth sd (Stack (length sd) swl) thr p
      = Inr (sum_axis0 (length sd) (map (map Fin) rows))"
    using loop mul shape water
    by (simp add: cal_subsurface_flow_depth_def ebind_def Let_def broadcast_width_def list_all_iff)
  also have "sum_axis0 (length sd) (map (map Fin) rows) = map (\<lambda>c. Fin (\<Sum>row\<leftarrow>rows. row ! c)) [0 ..< length sd]"
    using shape_rows by (rule sum_axis0_Fin)
  also have "\<dots> = map (\<lambda>c. Fin ((\<Sum>i < length swl. swl ! i ! c * soil_layer_cell (thr ! i) (thr ! (i + 1)) (sd ! c)) / p))
            [0 ..< length sd]"
  proof (rule map_cong[OF refl], rule arg_cong[where f = Fin])
    fix c assume "c \<in> set [0 ..< length sd]"
    then have c: "c < length sd" by simp
    have len_rows: "length rows = length swl" by (simp add: rows_def len_product)
    have "(\<Sum>row\<leftarrow>rows. row ! c) =
        (\<Sum>i = 0 ..< length (map (\<lambda>row. row ! c) rows). map (\<lambda>row. row ! c) rows ! i)"
      by (rule sum_list_sum_nth)
    also have "\<dots> = (\<Sum>i < length swl. rows ! i ! c)"
      by (auto simp: len_rows atLeast0LessThan intro!: sum.cong)
    also have "\<dots> = (\<Sum>i < length swl. swl ! i ! c * soil_layer_cell (thr ! i) (thr ! (i + 1)) (sd ! c) / p)"
    proof (rule sum.cong[OF refl])
      fix i assume "i \<in> {..<length swl}"
      then have i: "i < length swl" by simp
      then have "length (swl ! i) = length sd" using shape by simp
      with i c show "rows ! i ! c = swl ! i ! c * soil_layer_cell (thr ! i) (thr ! (i + 1)) (sd ! c) / p"
        by (simp add: rows_def product_def layers_def len_layers)
    qed
    also have "\<dots> = (\<Sum>i < length swl. swl ! i ! c * soil_layer_cell (thr ! i) (thr ! (i + 1)) (sd ! c)) / p"
      by (simp add: sum_divide_distrib)
    finally show "(\<Sum>row\<leftarrow>rows. row ! c) = (\<Sum>i < length swl. swl ! i ! c * soil_layer_cell (thr ! i) (thr ! (i + 1)) (sd ! c)) / p" .
  qed
  finally show ?thesis .
qed


lemma loop_result:
  assumes "soil_depth_layer_loop thr sd [0 ..< L] = Inr layers"
  shows "\<forall>i < L. i + 1 < length thr"
    and "layers = map (\<lambda>i. map (soil_layer_cell (thr ! i) (thr ! (i + 1))) sd) [0 ..< L]"
proof -
  show idx: "\<forall>i < L. i + 1 < length thr"
  proof (rule ccontr)
    assume "\<not> (\<forall>i < L. i + 1 < length thr)"
    then have "\<exists>i \<in> set [0 ..< L]. \<not> i + 1 < length thr" by auto
    then have "soil_depth_layer_loop thr sd [0 ..< L] = Inl IndexError" by (rule loop_fail)
    with assms show False by simp
  qed
  then have "soil_depth_layer_loop thr sd [0 ..< L] =
     Inr (map (\<lambda>i. map (soil_layer_cell (thr ! i) (thr ! (i + 1))) sd) [0 ..< L])"
    by (intro loop_ok) simp
  with assms show "layers = map (\<lambda>i. map (soil_layer_cell (thr ! i) (thr ! (i + 1))) sd) [0 ..< L]"
    by simp
qed

lemma soil_layer_cell_bounds:
  assumes "lo < hi"
  shows "0 \<le> soil_layer_cell lo hi x" and "soil_layer_cell lo hi x \<le> hi - lo"
    and "x \<le> lo \<Longrightarrow> soil_layer_cell lo hi x = 0"
    and "hi \<le> x \<Longrightarrow> soil_layer_cell lo hi x = hi - lo"
  using assms by (auto simp: soil_layer_cell_def Let_def)

lemma soil_layer_cell_nonneg: "0 \<le> soil_layer_cell lo hi x"
  by (simp add: soil_layer_cell_def Let_def)

text \<open>
  C7. For strictly increasing thresholds, every cell and every layer \<open>i\<close> of the loop,
  the thickness the loop stores in \<open>soil_depth_layer[i]\<close> lies between 0 and the width
  \<open>t\<^sub>i\<^sub>+\<^sub>1 - t\<^sub>i\<close> of the bracket; it is 0 when the soil depth is at or below
  \<open>t\<^sub>i\<close> and the full width when the soil depth is at or above \<open>t\<^sub>i\<^sub>+\<^sub>1\<close>.
\<close>

theorem layer_thickness_bounds:
  assumes "sorted_wrt (<) thr"
    and "soil_depth_layer_loop thr sd [0 ..< L] = Inr layers"
    and "i < L" and "c < length sd"
  shows "0 \<le> layers ! i ! c \<and> layers ! i ! c \<le> thr ! (i + 1) - thr ! i
     \<and> (sd ! c \<le> thr ! i \<longrightarrow> layers ! i ! c = 0)
     \<and> (thr ! (i + 1) \<le> sd ! c \<longrightarrow> layers ! i ! c = thr ! (i + 1) - thr ! i)"
proof -
  from loop_result[OF assms(2)] assms(3)
  have idx: "i + 1 < length thr"
    and cell: "layers ! i ! c = soil_layer_cell (thr ! i) (thr ! (i + 1)) (sd ! c)"
    using assms(4) by simp_all
  from assms(1) idx have "thr ! i < thr ! (i + 1)"
    by (simp add: sorted_wrt_nth_less)
  from soil_layer_cell_bounds[OF this, of "sd ! c"] show ?thesis
    unfolding cell by blast
qed

theorem layer_thickness_bounds_witness:
  "soil_depth_layer_loop [0, 1, 2] [3 / 2, 1 / 2, 5] [0 ..< 2] = Inr [[1, 1 / 2, 1], [1 / 2, 0, 1]]
   \<and> 0 \<le> [[1, 1 / 2, 1], [1 / 2, 0, 1 :: real]] ! 1 ! 0
   \<and> [[1, 1 / 2, 1], [1 / 2, 0, 1 :: real]] ! 1 ! 0 \<le> [0, 1, 2] ! (1 + 1) - [0, 1, 2] ! 1"
proof -
  have run: "soil_depth_layer_loop [0, 1, 2] [3 / 2, 1 / 2, 5] [0 ..< 2] = Inr [[1, 1 / 2, 1], [1 / 2, 0, 1]]"
    by (simp add: upt_rec soil_layer_at_def soil_layer_cell_def)
  have "sorted_wrt (<) [0, 1, 2 :: real]" by simp
  from layer_thickness_bounds[OF this run, of 1 0] run show ?thesis by simp
qed

text \<open>
  C3. For strictly increasing thresholds and a cell whose soil depth is exactly
  \<open>t\<^sub>i\<^sub>+\<^sub>1\<close>, layer \<open>i\<close> gets the full width of its bracket and layer \<open>i + 1\<close>,
  when the loop reaches it, gets thickness zero. The witness is the example of the
  specification: thresholds \<open>[0, 1, 2]\<close>, soil depth 1, thicknesses 1 and 0.
\<close>

theorem boundary_tie_break:
  assumes "sorted_wrt (<) thr"
    and "soil_depth_layer_loop thr sd [0 ..< L] = Inr layers"
    and "i < L" and "c < length sd"
    and "sd ! c = thr ! (i + 1)"
  shows "layers ! i ! c = thr ! (i + 1) - thr ! i
     \<and> (i + 1 < L \<longrightarrow> layers ! (i + 1) ! c = 0)"
proof -
  from loop_result[OF assms(2)]
  have idx: "\<forall>k < L. k + 1 < length thr"
    and cell: "\<And>k. k < L \<Longrightarrow> layers ! k ! c = soil_layer_cell (thr ! k) (thr ! (k + 1)) (sd ! c)"
    using assms(4) by simp_all
  from assms(1,3) idx have lt: "thr ! i < thr ! (i + 1)"
    by (simp add: sorted_wrt_nth_less)
  have first: "layers ! i ! c = thr ! (i + 1) - thr ! i"
    using cell[OF assms(3)] soil_layer_cell_bounds(4)[OF lt, of "sd ! c"] assms(5) by simp
  have second: "layers ! (i + 1) ! c = 0" if "i + 1 < L"
  proof -
    from idx that have "i + 1 + 1 < length thr" by blast
    with assms(1) have "thr ! (i + 1) < thr ! (i + 1 + 1)"
      by (simp add: sorted_wrt_nth_less)
    from soil_layer_cell_bounds(3)[OF this, of "sd ! c"] cell[OF that] assms(5)
    show ?thesis by simp
  qed
  from first second show ?thesis by blast
qed

theorem boundary_tie_break_witness:
  "soil_depth_layer_loop [0, 1, 2] [1] [0 ..< 2] = Inr [[1], [0]]
   \<and> [[1], [0 :: real]] ! 0 ! 0 = [0, 1, 2] ! (0 + 1) - [0, 1, 2] ! 0
   \<and> [[1], [0 :: real]] ! (0 + 1) ! 0 = 0"
proof -
  have run: "soil_depth_layer_loop [0, 1, 2] [1] [0 ..< 2] = Inr [[1], [0]]"
    by (simp add: upt_rec soil_layer_at_def soil_layer_cell_def)
  have "sorted_wrt (<) [0, 1, 2 :: real]" by simp
  from boundary_tie_break[OF this run, of 0 0] run show ?thesis by simp
qed

section \<open>What the aggregation does with inputs outside its preconditions\<close>

lemma sum_axis0_length:
  "\<forall>row \<in> set rows. length row = n \<Longrightarrow> length (sum_axis0 n rows) = n"
proof (induction rows)
  case Nil
  then show ?case by (simp add: sum_axis0_def)
next
  case (Cons row rows)
  then have "length (sum_axis0 n rows) = n" and "length row = n" by simp_all
  moreover have "sum_axis0 n (row # rows) = map2 fadd row (sum_axis0 n rows)"
    by (simp add: sum_axis0_def)
  ultimately show ?case by simp
qed

lemma broadcast_width_errors: "broadcast_width m n = Inl e \<Longrightarrow> e = ValueError"
  by (auto simp: broadcast_width_def split: if_splits)

lemma cal_subsurface_flow_depth_errors:
  "cal_subsurface_flow_depth sd s thr p = Inl e \<Longrightarrow> e = IndexError \<or> e = ValueError"
  by (auto simp: cal_subsurface_flow_depth_def ebind_def Let_def
      split: sum.splits if_splits dest: loop_errors multiply_layers_errors broadcast_width_errors)

lemma cal_subsurface_flow_depth_index_error:
  assumes "swl \<noteq> []" and "length thr \<le> length swl"
  shows "cal_subsurface_flow_depth sd (Stack m swl) thr p = Inl IndexError"
proof -
  from assms have "length swl - 1 \<in> set [0 ..< length swl]" "\<not> (length swl - 1) + 1 < length thr"
    by (auto simp: Suc_le_eq)
  then have "\<exists>i \<in> set [0 ..< length swl]. \<not> i + 1 < length thr" by blast
  then have "soil_depth_layer_loop thr sd [0 ..< length swl] = Inl IndexError" by (rule loop_fail)
  then show ?thesis by (simp add: cal_subsurface_flow_depth_def ebind_def)
qed

lemma multiply_layers_broadcast:
  "length ws = length ds \<Longrightarrow> \<forall>w \<in> set ws. length w = m \<Longrightarrow> \<forall>d \<in> set ds. length d = n \<Longrightarrow>
   broadcast_width m n = Inr k \<Longrightarrow>
   \<exists>product. multiply_layers ws ds = Inr product \<and> (\<forall>row \<in> set product. length row = k)"
  by (induction ws ds rule: list_induct2)
     (auto simp: broadcast2_def broadcast_width_def split: if_splits)

lemma cal_subsurface_flow_depth_returns:
  assumes idx: "swl = [] \<or> length swl < length thr"
    and shape: "\<forall>w \<in> set swl. length w = m"
    and width: "broadcast_width m (length sd) = Inr k"
  shows "\<exists>r. cal_subsurface_flow_depth sd (Stack m swl) thr p = Inr r \<and> length r = k"
proof -
  define layers where "layers = map (\<lambda>i. map (soil_layer_cell (thr ! i) (thr ! (i + 1))) sd) [0 ..< length swl]"
  from idx have "\<forall>i \<in> set [0 ..< length swl]. i + 1 < length thr" by auto
  then have loop: "soil_depth_layer_loop thr sd [0 ..< length swl] = Inr layers"
    unfolding layers_def by (rule loop_ok)
  have len_layers: "length swl = length layers" by (simp add: layers_def)
  have shape_layers: "\<forall>d \<in> set layers. length d = length sd" by (auto simp: layers_def)
  from multiply_layers_broadcast[OF len_layers shape shape_layers width]
  obtain product where mul: "multiply_layers swl layers = Inr product"
    and shape_product: "\<forall>row \<in> set product. length row = k" by blast
  define rows where "rows = map (map (\<lambda>x. fdiv (Fin x) (Fin p))) product"
  from shape_product have shape_rows: "\<forall>row \<in> set rows. length row = k"
    by (auto simp: rows_def)
  have "cal_subsurface_flow_depth sd (Stack m swl) thr p = Inr (sum_axis0 k rows)"
    using loop mul shape width
    by (simp add: cal_subsurface_flow_depth_def ebind_def Let_def rows_def list_all_iff)
  with sum_axis0_length[OF shape_rows] show ?thesis by simp
qed

lemma cal_subsurface_flow_depth_shape_error:
  assumes idx: "swl = [] \<or> length swl < length thr"
    and shape: "\<forall>w \<in> set swl. length w = m"
    and m: "m \<noteq> length sd" "m \<noteq> 1" "length sd \<noteq> 1"
  shows "cal_subsurface_flow_depth sd (Stack m swl) thr p = Inl ValueError"
proof -
  from idx have "\<forall>i \<in> set [0 ..< length swl]. i + 1 < length thr" by auto
  then have loop: "soil_depth_layer_loop thr sd [0 ..< length swl] =
      Inr (map (\<lambda>i. map (soil_layer_cell (thr ! i) (thr ! (i + 1))) sd) [0 ..< length swl])"
    by (rule loop_ok)
  from m have "broadcast_width m (length sd) = Inl ValueError"
    by (simp add: broadcast_width_def)
  with loop shape show ?thesis
    by (simp add: cal_subsurface_flow_depth_def ebind_def list_all_iff)
qed

text \<open>
  C6, as the code has it. \<open>cal_subsurface_flow_depth\<close> checks nothing and never ends
  with a \<open>DomainError\<close>. Whatever the order of the thresholds: a stack with a layer
  for which \<open>layer_threshold[i + 1]\<close> does not exist ends with \<open>IndexError\<close>.
  Otherwise, for a stack of shape \<open>(L, m)\<close> that is empty or shorter than the threshold
  list and a soil depth of \<open>n\<close> cells: when \<open>m = n\<close> the function returns a raster of
  \<open>n\<close> cells; when \<open>m\<close> and \<open>n\<close> differ and neither is 1 it ends with the
  \<open>ValueError\<close> of the array product, also when the stack has no row; when they differ
  and one of them is 1 the product broadcasts and the raster returned has the other width.
\<close>

theorem no_validation_of_inputs:
  "cal_subsurface_flow_depth sd (Stack m swl) thr p \<noteq> Inl DomainError
   \<and> (swl \<noteq> [] \<and> length thr \<le> length swl \<longrightarrow>
        cal_subsurface_flow_depth sd (Stack m swl) thr p = Inl IndexError)
   \<and> ((swl = [] \<or> length swl < length thr) \<and> (\<forall>w \<in> set swl. length w = m)
        \<and> m = length sd \<longrightarrow>
        (\<exists>r. cal_subsurface_flow_depth sd (Stack m swl) thr p = Inr r \<and> length r = length sd))
   \<and> ((swl = [] \<or> length swl < length thr) \<and> (\<forall>w \<in> set swl. length w = m)
        \<and> m \<noteq> length sd \<and> m \<noteq> 1 \<and> length sd \<noteq> 1 \<longrightarrow>
        cal_subsurface_flow_depth sd (Stack m swl) thr p = Inl ValueError)
   \<and> ((swl = [] \<or> length swl < length thr) \<and> (\<forall>w \<in> set swl. length w = m)
        \<and> m \<noteq> length sd \<and> (m = 1 \<or> length sd = 1) \<longrightarrow>
        (\<exists>r. cal_subsurface_flow_depth sd (Stack m swl) thr p = Inr r
           \<and> length r = (if m = 1 then length sd else m)))"
proof -
  have no_domain_error: "cal_subsurface_flow_depth sd (Stack m swl) thr p \<noteq> Inl DomainError"
    using cal_subsurface_flow_depth_errors[of sd "Stack m swl" thr p DomainError] by auto
  have same: "\<exists>r. cal_subsurface_flow_depth sd (Stack m swl) thr p = Inr r \<and> length r = length sd"
    if "swl = [] \<or> length swl < length thr" "\<forall>w \<in> set swl. length w = m" "m = length sd"
    using that by (intro cal_subsurface_flow_depth_returns) (simp_all add: broadcast_width_def)
  have one: "\<exists>r. cal_subsurface_flow_depth sd (Stack m swl) thr p = Inr r
       \<and> length r = (if m = 1 then length sd else m)"
    if "swl = [] \<or> length swl < length thr" "\<forall>w \<in> set swl. length w = m"
      "m \<noteq> length sd" "m = 1 \<or> length sd = 1"
    using that by (intro cal_subsurface_flow_depth_returns) (auto simp: broadcast_width_def)
  show ?thesis
    using no_domain_error same one
      cal_subsurface_flow_depth_index_error[of swl thr sd m p]
      cal_subsurface_flow_depth_shape_error[of swl thr m sd p]
    by blast
qed

text \<open>
  The thresholds \<open>[0, 1, 0.5]\<close> of the specification's example are not increasing, and
  the function returns a raster for them: layer 0 has thickness 1 and layer 1 thickness 0
  at a cell of soil depth 1, so the flow depth is \<open>(0.2 * 1 + 0.2 * 0) / 0.5 = 0.4\<close>.
\<close>

theorem non_monotonic_thresholds_return:
  "cal_subsurface_flow_depth [1] (Stack 1 [[2 / 10], [2 / 10]]) [0, 1, 1 / 2] (1 / 2)
     = Inr [Fin (4 / 10)]"
  by (simp add: cal_subsurface_flow_depth_def ebind_def soil_layer_at_def soil_layer_cell_def
      broadcast_width_def broadcast2_def sum_axis0_def upt_rec)

text \<open>
  The clauses at concrete inputs: a conforming stack of two layers on non-increasing
  thresholds; a third layer, for which there is no threshold; rows of width 3 against a
  soil depth of two cells; the array of shape \<open>(0, 3)\<close> and the empty list against the
  same soil depth; rows of width 1, which broadcast.
\<close>

theorem no_validation_of_inputs_witness:
  "cal_subsurface_flow_depth [1, 2] (Stack 2 [[1 / 10, 3 / 10], [2 / 10, 2 / 10]]) [0, 1, 1 / 2] (1 / 2)
      \<noteq> Inl DomainError
   \<and> cal_subsurface_flow_depth [1, 2] (Stack 2 [[1 / 10, 3 / 10], [2 / 10, 2 / 10], [0, 0]]) [0, 1, 1 / 2] (1 / 2)
      = Inl IndexError
   \<and> (\<exists>r. cal_subsurface_flow_depth [1, 2] (Stack 2 [[1 / 10, 3 / 10], [2 / 10, 2 / 10]]) [0, 1, 1 / 2] (1 / 2)
           = Inr r \<and> length r = 2)
   \<and> cal_subsurface_flow_depth [1, 2] (Stack 3 [[1 / 10, 3 / 10, 0], [2 / 10, 2 / 10, 0]]) [0, 1, 1 / 2] (1 / 2)
      = Inl ValueError
   \<and> cal_subsurface_flow_depth [1, 2] (Stack 3 []) [0, 1, 1 / 2] (1 / 2) = Inl ValueError
   \<and> cal_subsurface_flow_depth [1, 2] (Stack 0 []) [0, 1, 1 / 2] (1 / 2) = Inl ValueError
   \<and> (\<exists>r. cal_subsurface_flow_depth [1, 2] (Stack 1 [[1 / 10], [2 / 10]]) [0, 1, 1 / 2] (1 / 2)
           = Inr r \<and> length r = 2)"
  using no_validation_of_inputs[of "[1, 2]" 2 "[[1 / 10, 3 / 10], [2 / 10, 2 / 10]]" "[0, 1, 1 / 2]" "1 / 2"]
    no_validation_of_inputs[of "[1, 2]" 2 "[[1 / 10, 3 / 10], [2 / 10, 2 / 10], [0, 0]]" "[0, 1, 1 / 2]" "1 / 2"]
    no_validation_of_inputs[of "[1, 2]" 3 "[[1 / 10, 3 / 10, 0], [2 / 10, 2 / 10, 0]]" "[0, 1, 1 / 2]" "1 / 2"]
    no_validation_of_inputs[of "[1, 2]" 3 "[]" "[0, 1, 1 / 2]" "1 / 2"]
    no_validation_of_inputs[of "[1, 2]" 0 "[]" "[0, 1, 1 / 2]" "1 / 2"]
    no_validation_of_inputs[of "[1, 2]" 1 "[[1 / 10], [2 / 10]]" "[0, 1, 1 / 2]" "1 / 2"]
  by (simp add: numeral_2_eq_2 numeral_3_eq_3)

section \<open>The threshold read out of range\<close>

text \<open>
  C10, as the code has it. The loop reads \<open>layer_threshold[i + 1]\<close> for every layer
  \<open>i\<close> of the stack, so the function ends with \<open>IndexError\<close> exactly when the stack
  is not empty and has at least as many layers as there are thresholds. It returns a
  result only when the stack is empty or \<open>len(soil_water_layer) <= len(layer_threshold) - 1\<close>,
  the subtraction being that of the integers.
\<close>

theorem threshold_index_error:
  "(cal_subsurface_flow_depth sd (Stack m swl) thr p = Inl IndexError)
      = (swl \<noteq> [] \<and> length thr \<le> length swl)
   \<and> (\<forall>r. cal_subsurface_flow_depth sd (Stack m swl) thr p = Inr r \<longrightarrow>
         swl = [] \<or> int (length swl) \<le> int (length thr) - 1)"
proof -
  have a: "cal_subsurface_flow_depth sd (Stack m swl) thr p = Inl IndexError"
    if "swl \<noteq> []" "length thr \<le> length swl"
    using that by (rule cal_subsurface_flow_depth_index_error)
  have b: "swl \<noteq> [] \<and> length thr \<le> length swl"
    if err: "cal_subsurface_flow_depth sd (Stack m swl) thr p = Inl IndexError"
  proof (rule ccontr)
    assume "\<not> (swl \<noteq> [] \<and> length thr \<le> length swl)"
    then have "\<forall>i \<in> set [0 ..< length swl]. i + 1 < length thr" by auto
    then have "soil_depth_layer_loop thr sd [0 ..< length swl] =
       Inr (map (\<lambda>i. map (soil_layer_cell (thr ! i) (thr ! (i + 1))) sd) [0 ..< length swl])"
      by (rule loop_ok)
    with err show False
      by (auto simp: cal_subsurface_flow_depth_def ebind_def Let_def
          split: sum.splits if_splits dest: multiply_layers_errors broadcast_width_errors)
  qed
  have c: "swl = [] \<or> int (length swl) \<le> int (length thr) - 1"
    if "cal_subsurface_flow_depth sd (Stack m swl) thr p = Inr r" for r
  proof (rule ccontr)
    assume "\<not> (swl = [] \<or> int (length swl) \<le> int (length thr) - 1)"
    then have "swl \<noteq> []" "length thr \<le> length swl" by auto
    from a[OF this] that show False by simp
  qed
  from a b c show ?thesis by blast
qed

theorem threshold_index_error_witness:
  "cal_subsurface_flow_depth [1] (Stack 1 [[2 / 10], [3 / 10]]) [0, 1] (1 / 2) = Inl IndexError
   \<and> cal_subsurface_flow_depth [1] (Stack 1 [[2 / 10]]) [0, 1] (1 / 2) \<noteq> Inl IndexError"
  using threshold_index_error[of "[1]" 1 "[[2 / 10], [3 / 10]]" "[0, 1]" "1 / 2"]
    threshold_index_error[of "[1]" 1 "[[2 / 10]]" "[0, 1]" "1 / 2"]
  by simp

text \<open>
  With an empty stack, here the array of shape \<open>(0, 1)\<close>, the loop body never runs and
  no threshold is read: the function returns for an empty threshold list, where
  \<open>0 <= 0 - 1\<close> does not hold.
\<close>

theorem empty_stack_returns_without_thresholds:
  "cal_subsurface_flow_depth [1] (Stack 1 []) [] (1 / 2) = Inr [Fin 0]
   \<and> \<not> int (length ([] :: real list list)) \<le> int (length ([] :: real list)) - 1"
  by (simp add: cal_subsurface_flow_depth_def ebind_def broadcast_width_def sum_axis0_def)

text \<open>
  The empty Python list, of shape \<open>(0,)\<close>, broadcasts against one cell of soil depth
  and the function returns the empty raster, of shape \<open>(0,)\<close>.
\<close>

lemma empty_list_stack_returns:
  "cal_subsurface_flow_depth [1] (Stack 0 []) [] (1 / 2) = Inr []"
  by (simp add: cal_subsurface_flow_depth_def ebind_def broadcast_width_def sum_axis0_def)

section \<open>Bounds and monotonicity of the flow depth\<close>




text \<open>
  C8. With strictly increasing thresholds and a positive porosity, replacing layer \<open>j\<close>
  of the stack by a layer that is nowhere drier, all else fixed, decreases no cell of the
  returned raster.
\<close>

theorem flow_depth_monotone_in_moisture:
  assumes thr: "sorted_wrt (<) thr"
    and p: "0 < p"
    and len: "length swl < length thr"
    and shape: "\<forall>w \<in> set swl. length w = length sd" "length w' = length sd"
    and j: "j < length swl"
    and more: "\<forall>c < length sd. swl ! j ! c \<le> w' ! c"
  shows "\<exists>r r'. cal_subsurface_flow_depth sd (Stack (length sd) swl) thr p = Inr r
     \<and> cal_subsurface_flow_depth sd (Stack (length sd) (swl[j := w'])) thr p = Inr r'
     \<and> length r = length sd \<and> length r' = length sd
     \<and> (\<forall>c < length sd. \<exists>a b. r ! c = Fin a \<and> r' ! c = Fin b \<and> a \<le> b)"
proof -
  let ?t = "\<lambda>i c. soil_layer_cell (thr ! i) (thr ! (i + 1)) (sd ! c)"
  let ?v = "\<lambda>s c. (\<Sum>i < length swl. s ! i ! c * ?t i c) / p"
  from len have idx: "\<forall>i < length swl. i + 1 < length thr" by auto
  from p have p0: "p \<noteq> 0" by simp
  have shape': "\<forall>w \<in> set (swl[j := w']). length w = length sd"
    using shape by (auto dest!: set_update_subset_insert[THEN subsetD])
  from cal_subsurface_flow_depth_value[OF idx shape(1) p0]
  have run: "cal_subsurface_flow_depth sd (Stack (length sd) swl) thr p
      = Inr (map (\<lambda>c. Fin (?v swl c)) [0 ..< length sd])" .
  from cal_subsurface_flow_depth_value[of "swl[j := w']" thr sd p] idx shape' p0
  have run': "cal_subsurface_flow_depth sd (Stack (length sd) (swl[j := w'])) thr p
      = Inr (map (\<lambda>c. Fin (?v (swl[j := w']) c)) [0 ..< length sd])"
    by simp
  have mono: "?v swl c \<le> ?v (swl[j := w']) c" if c: "c < length sd" for c
  proof -
    have "(\<Sum>i < length swl. swl ! i ! c * ?t i c) \<le> (\<Sum>i < length swl. swl[j := w'] ! i ! c * ?t i c)"
    proof (rule sum_mono)
      fix i assume "i \<in> {..<length swl}"
      then have i: "i < length swl" by simp
      have "swl ! i ! c \<le> swl[j := w'] ! i ! c"
        using more c i j by (cases "i = j") simp_all
      from mult_right_mono[OF this soil_layer_cell_nonneg]
      show "swl ! i ! c * ?t i c \<le> swl[j := w'] ! i ! c * ?t i c" .
    qed
    with p show ?thesis by (simp add: divide_right_mono)
  qed
  show ?thesis unfolding run run' using mono by simp
qed

theorem flow_depth_monotone_in_moisture_witness:
  "cal_subsurface_flow_depth [3 / 2] (Stack 1 [[2 / 10], [4 / 10]]) [0, 1, 2] (1 / 2)
     = Inr [Fin (8 / 10)]
   \<and> cal_subsurface_flow_depth [3 / 2] (Stack 1 ([[2 / 10], [4 / 10]][1 := [6 / 10]])) [0, 1, 2] (1 / 2)
     = Inr [Fin 1]"
proof -
  have "sorted_wrt (<) [0, 1, 2 :: real]" by simp
  from flow_depth_monotone_in_moisture[OF this, of "1 / 2" "[[2 / 10], [4 / 10]]" "[3 / 2]" "[6 / 10]" 1]
  have "\<exists>r r'. cal_subsurface_flow_depth [3 / 2] (Stack 1 [[2 / 10], [4 / 10]]) [0, 1, 2] (1 / 2) = Inr r
     \<and> cal_subsurface_flow_depth [3 / 2] (Stack 1 ([[2 / 10], [4 / 10]][1 := [6 / 10]])) [0, 1, 2] (1 / 2) = Inr r'"
    by auto
  then show ?thesis
    by (simp add: cal_subsurface_flow_depth_def ebind_def soil_layer_at_def soil_layer_cell_def
      broadcast_width_def broadcast2_def sum_axis0_def upt_rec)
qed

section \<open>The safety factor, cell by cell\<close>

text \<open>
  On three rasters of one shape no operation of \<open>cal_safety_factor\<close> broadcasts, and
  the array program computes \<open>safety_factor_cell\<close> at every cell.
\<close>

lemma broadcast2_same_length:
  "length xs = length ys \<Longrightarrow> broadcast2 f xs ys = Inr (map2 f xs ys)"
  by (simp add: broadcast2_def)

lemma broadcast2_errors: "broadcast2 f xs ys = Inl e \<Longrightarrow> e = ValueError"
  by (auto simp: broadcast2_def split: if_splits)

lemma cal_safety_factor_errors:
  "cal_safety_factor slope w d p = Inl e \<Longrightarrow> e = ValueError"
  by (auto simp: cal_safety_factor_def ebind_def Let_def split: sum.splits dest: broadcast2_errors)

lemma cal_safety_factor_cells:
  assumes "length slope = n" "length w = n" "length d = n"
  shows "cal_safety_factor slope w d p =
     Inr (map (\<lambda>c. safety_factor_cell (slope ! c) (w ! c) (d ! c) p) [0 ..< n])"
  using assms
  by (auto simp: cal_safety_factor_def ebind_def Let_def broadcast2_same_length
      safety_factor_cell_def intro!: nth_equalityI)

lemma safety_factor_cell_finite:
  assumes "d \<noteq> 0" "sin a \<noteq> 0" "soil_bulk_density p \<noteq> 0" "gravity_acceleration p \<noteq> 0"
  shows "safety_factor_cell a w d p =
     Fin ((root_cohesion p + soil_cohesion p) / (d * soil_bulk_density p * gravity_acceleration p) / sin a
          + cos a * tan (soil_internal_friction_angle p * pi / 180)
            * (1 - (w / d) * water_density p / soil_bulk_density p) / sin a)"
  using assms by (simp add: safety_factor_cell_def Let_def fsub_def)

lemma fadd_not_finite_left: "\<not> is_finite x \<Longrightarrow> \<not> is_finite (fadd x y)"
  by (cases x; cases y) simp_all

lemma fadd_not_finite_right: "\<not> is_finite y \<Longrightarrow> \<not> is_finite (fadd x y)"
  by (cases x; cases y) simp_all

lemma fsub_not_finite_right: "\<not> is_finite y \<Longrightarrow> \<not> is_finite (fsub x y)"
  by (cases x; cases y) (simp_all add: fsub_def)

lemma fmul_not_finite_left: "\<not> is_finite x \<Longrightarrow> \<not> is_finite (fmul x y)"
  by (cases x; cases y) simp_all

lemma fmul_not_finite_right: "\<not> is_finite y \<Longrightarrow> \<not> is_finite (fmul x y)"
  by (cases x; cases y) simp_all

lemma fdiv_not_finite_left: "\<not> is_finite x \<Longrightarrow> \<not> is_finite (fdiv x (Fin b))"
  by (cases x) simp_all

lemma fdiv_by_zero_not_finite: "\<not> is_finite (fdiv x (Fin 0))"
  by (cases x) simp_all

lemma safety_factor_cell_singular:
  assumes "d = 0 \<or> sin a = 0"
  shows "\<not> is_finite (safety_factor_cell a w d p)"
proof -
  let ?tan = "Fin (tan (soil_internal_friction_angle p * pi / 180))"
  let ?inner = "fsub (Fin 1) (fdiv (fmul (fdiv (Fin w) (Fin d)) (Fin (water_density p))) (Fin (soil_bulk_density p)))"
  let ?num = "fmul (fmul (Fin (cos a)) ?tan) ?inner"
  have "\<not> is_finite (fdiv ?num (Fin (sin a)))"
  proof (cases "sin a = 0")
    case True
    then show ?thesis by (simp only: fdiv_by_zero_not_finite not_False_eq_True)
  next
    case False
    with assms have "d = 0" by simp
    then have "\<not> is_finite (fdiv (Fin w) (Fin d))" by (simp only: fdiv_by_zero_not_finite not_False_eq_True)
    then have "\<not> is_finite (fmul (fdiv (Fin w) (Fin d)) (Fin (water_density p)))"
      by (rule fmul_not_finite_left)
    then have "\<not> is_finite (fdiv (fmul (fdiv (Fin w) (Fin d)) (Fin (water_density p))) (Fin (soil_bulk_density p)))"
      by (rule fdiv_not_finite_left)
    then have "\<not> is_finite ?inner"
      by (rule fsub_not_finite_right)
    then have "\<not> is_finite ?num"
      by (rule fmul_not_finite_right)
    then show ?thesis
      by (rule fdiv_not_finite_left)
  qed
  then show ?thesis
    unfolding safety_factor_cell_def Let_def by (rule fadd_not_finite_right)
qed


text \<open>
  C1. At a cell of positive soil depth whose slope angle has a non-zero sine, the
  returned value is the number
  \<open>(root_cohesion + soil_cohesion) / (soil_depth * bulk_density * g) / sin(slope)
   + cos(slope) * tan(friction_angle * pi / 180)
     * (1 - (flow_depth / soil_depth) * water_density / bulk_density) / sin(slope)\<close>,
  the bulk density and the gravitational acceleration being non-zero, so that the
  formula has no other zero divisor. Nothing bounds the flow depth: the relative wetness
  \<open>flow_depth / soil_depth\<close> enters as it is, also above 1. The witness is the worked
  example of the specification.
\<close>

theorem safety_factor_formula:
  assumes "length slope = n" "length w = n" "length d = n" and "c < n"
    and "0 < d ! c" and "sin (slope ! c) \<noteq> 0"
    and "soil_bulk_density p \<noteq> 0" and "gravity_acceleration p \<noteq> 0"
  shows "\<exists>r. cal_safety_factor slope w d p = Inr r \<and> length r = n \<and>
     r ! c = Fin ((root_cohesion p + soil_cohesion p)
                    / (d ! c * soil_bulk_density p * gravity_acceleration p) / sin (slope ! c)
                  + cos (slope ! c) * tan (soil_internal_friction_angle p * pi / 180)
                    * (1 - (w ! c / d ! c) * water_density p / soil_bulk_density p) / sin (slope ! c))"
proof -
  from assms(5) have "d ! c \<noteq> 0" by simp
  from safety_factor_cell_finite[OF this assms(6,7,8), of "w ! c"] assms(4)
  show ?thesis
    unfolding cal_safety_factor_cells[OF assms(1,2,3)] by simp
qed

theorem safety_factor_formula_witness:
  "cal_safety_factor [pi / 4] [2 / 10] [1]
     \<lparr> root_cohesion = 0, soil_cohesion = 0, soil_bulk_density = 1300,
       water_density = 1000, gravity_acceleration = 9806 / 1000,
       soil_internal_friction_angle = 35 \<rparr>
   = Inr [Fin (cos (pi / 4) * tan (35 * pi / 180) * (1 - (2 / 10) * 1000 / 1300) / sin (pi / 4))]"
proof -
  let ?p = "\<lparr> root_cohesion = 0, soil_cohesion = 0, soil_bulk_density = 1300,
       water_density = 1000, gravity_acceleration = 9806 / 1000,
       soil_internal_friction_angle = 35 \<rparr>"
  have s: "sin ([pi / 4] ! 0) \<noteq> 0" by (simp add: sin_45)
  from safety_factor_formula[of "[pi / 4]" 1 "[2 / 10]" "[1]" 0 ?p] s
  obtain r where r: "cal_safety_factor [pi / 4] [2 / 10] [1] ?p = Inr r" "length r = 1"
    "r ! 0 = Fin (cos (pi / 4) * tan (35 * pi / 180) * (1 - (2 / 10) * 1000 / 1300) / sin (pi / 4))"
    by auto
  from r(2) have "r = [r ! 0]" by (cases r) auto
  with r(1,3) show ?thesis by simp
qed

section \<open>Singular cells\<close>

text \<open>
  C5, as the code has it. \<open>cal_safety_factor\<close> checks nothing: on rasters of one shape
  it returns a raster, and at a cell whose soil depth is 0 or whose slope angle has sine
  0 the value it returns is not a finite number (an infinity or \<^verbatim>\<open>nan\<close>).
\<close>

theorem singular_cells_not_rejected:
  assumes "length slope = n" "length w = n" "length d = n" and "c < n"
    and "d ! c = 0 \<or> sin (slope ! c) = 0"
  shows "\<exists>r. cal_safety_factor slope w d p = Inr r \<and> length r = n \<and> \<not> is_finite (r ! c)"
  using safety_factor_cell_singular[OF assms(5), of "w ! c" p] assms(4)
  unfolding cal_safety_factor_cells[OF assms(1,2,3)] by simp

lemma tan_35_pos: "0 < tan (35 * pi / 180)"
  by (rule tan_gt_zero) (use pi_gt_zero in simp_all)

text \<open>
  A flat cell, slope angle 0, with soil depth 1, flow depth 0.2 and the default material:
  both terms are a positive number over zero, and the function returns \<^verbatim>\<open>inf\<close>
  at the cell.
\<close>

theorem flat_cell_gives_infinity:
  "cal_safety_factor [0] [2 / 10] [1] default_material = Inr [PInf]"
  using tan_35_pos
  by (simp add: cal_safety_factor_def ebind_def broadcast2_def default_material_def fsub_def)

theorem singular_cells_not_rejected_witness:
  "cal_safety_factor [pi / 2, pi / 4] [0, 2 / 10] [0, 1] default_material \<noteq> Inl DomainError
   \<and> (\<exists>r. cal_safety_factor [pi / 2, pi / 4] [0, 2 / 10] [0, 1] default_material = Inr r
         \<and> length r = 2 \<and> \<not> is_finite (r ! 0))"
  using singular_cells_not_rejected[of "[pi / 2, pi / 4]" 2 "[0, 2 / 10]" "[0, 1]" 0 default_material]
  by auto


section \<open>More water, no more stability\<close>

lemma safety_factor_cell_terms:
  assumes "d \<noteq> 0" "sin a \<noteq> 0" "soil_bulk_density p \<noteq> 0"
  shows "safety_factor_cell a w d p =
     fadd (fdiv (fdiv (Fin (root_cohesion p + soil_cohesion p))
                   (Fin (d * soil_bulk_density p * gravity_acceleration p)))
             (Fin (sin a)))
          (Fin (cos a * tan (soil_internal_friction_angle p * pi / 180)
                * (1 - (w / d) * water_density p / soil_bulk_density p) / sin a))"
  using assms by (simp add: safety_factor_cell_def Let_def fsub_def)

lemma fadd_Fin_not_less:
  "y \<le> x \<Longrightarrow> \<not> fless (fadd l (Fin x)) (fadd l (Fin y))"
  by (cases l) simp_all

lemma friction_term_antitone:
  fixes w w' d k s wd bd :: real
  assumes "w \<le> w'" "0 < d" "0 < s" "0 \<le> k" "0 < wd" "0 < bd"
  shows "k * (1 - (w' / d) * wd / bd) / s \<le> k * (1 - (w / d) * wd / bd) / s"
proof -
  have a: "w / d \<le> w' / d"
    by (rule divide_right_mono[OF assms(1)]) (use assms(2) in simp)
  have b: "(w / d) * wd \<le> (w' / d) * wd"
    by (rule mult_right_mono[OF a]) (use assms(5) in simp)
  have c: "(w / d) * wd / bd \<le> (w' / d) * wd / bd"
    by (rule divide_right_mono[OF b]) (use assms(6) in simp)
  have e: "1 - (w' / d) * wd / bd \<le> 1 - (w / d) * wd / bd"
    by (rule diff_left_mono[OF c])
  have f: "k * (1 - (w' / d) * wd / bd) \<le> k * (1 - (w / d) * wd / bd)"
    by (rule mult_left_mono[OF e assms(4)])
  show ?thesis
    by (rule divide_right_mono[OF f]) (use assms(3) in simp)
qed

text \<open>
  C9. At a cell of positive soil depth, with \<open>sin(slope) > 0\<close>, \<open>cos(slope) \<ge> 0\<close>,
  positive bulk and water densities and a friction angle between 0 and 90 degrees, a
  larger flow depth at the cell never gives a larger safety factor there. When the
  gravitational acceleration is not zero both values are finite numbers and the second
  is at most the first; when it is zero the cohesion term is the same special value for
  both and so is the result.
\<close>

theorem safety_factor_antitone_in_flow_depth:
  assumes shape: "length slope = n" "length w = n" "length w' = n" "length d = n"
    and c: "c < n"
    and d: "0 < d ! c"
    and slope: "0 < sin (slope ! c)" "0 \<le> cos (slope ! c)"
    and dens: "0 < soil_bulk_density p" "0 < water_density p"
    and fi: "0 < soil_internal_friction_angle p" "soil_internal_friction_angle p < 90"
    and more: "w ! c \<le> w' ! c"
  shows "\<exists>r r'. cal_safety_factor slope w d p = Inr r \<and> cal_safety_factor slope w' d p = Inr r'
     \<and> \<not> fless (r ! c) (r' ! c)
     \<and> (gravity_acceleration p \<noteq> 0 \<longrightarrow> (\<exists>x y. r ! c = Fin x \<and> r' ! c = Fin y \<and> y \<le> x))"
proof -
  let ?tan = "tan (soil_internal_friction_angle p * pi / 180)"
  let ?l = "fdiv (fdiv (Fin (root_cohesion p + soil_cohesion p))
                   (Fin (d ! c * soil_bulk_density p * gravity_acceleration p)))
             (Fin (sin (slope ! c)))"
  let ?f = "\<lambda>v. cos (slope ! c) * ?tan * (1 - (v / d ! c) * water_density p / soil_bulk_density p)
              / sin (slope ! c)"
  from d slope(1) dens(1) have nz: "d ! c \<noteq> 0" "sin (slope ! c) \<noteq> 0" "soil_bulk_density p \<noteq> 0"
    by simp_all
  have "0 < ?tan"
    by (rule tan_gt_zero) (use fi pi_gt_zero in simp_all)
  with slope(2) have k: "0 \<le> cos (slope ! c) * ?tan" by simp
  from friction_term_antitone[OF more d slope(1) k dens(2,1)]
  have le: "?f (w' ! c) \<le> ?f (w ! c)" .
  have cell: "safety_factor_cell (slope ! c) v (d ! c) p = fadd ?l (Fin (?f v))" for v
    by (rule safety_factor_cell_terms[OF nz])
  have not_less: "\<not> fless (safety_factor_cell (slope ! c) (w ! c) (d ! c) p)
                       (safety_factor_cell (slope ! c) (w' ! c) (d ! c) p)"
    unfolding cell using le by (rule fadd_Fin_not_less)
  have fin: "\<exists>x y. safety_factor_cell (slope ! c) (w ! c) (d ! c) p = Fin x
       \<and> safety_factor_cell (slope ! c) (w' ! c) (d ! c) p = Fin y \<and> y \<le> x"
    if "gravity_acceleration p \<noteq> 0"
    unfolding cell using le that nz by simp
  show ?thesis
    unfolding cal_safety_factor_cells[OF shape(1,2,4)] cal_safety_factor_cells[OF shape(1,3,4)]
    using c not_less fin by simp
qed

theorem safety_factor_antitone_in_flow_depth_witness:
  "\<exists>r r'. cal_safety_factor [pi / 4] [2 / 10] [1] default_material = Inr r
     \<and> cal_safety_factor [pi / 4] [5 / 10] [1] default_material = Inr r'
     \<and> \<not> fless (r ! 0) (r' ! 0)
     \<and> (\<exists>x y. r ! 0 = Fin x \<and> r' ! 0 = Fin y \<and> y \<le> x)"
proof -
  have "0 < sin ([pi / 4] ! 0)" "0 \<le> cos ([pi / 4] ! 0)"
    by (simp_all add: sin_45 cos_45)
  from safety_factor_antitone_in_flow_depth[of "[pi / 4]" 1 "[2 / 10]" "[5 / 10]" "[1]" 0 default_material, OF _ _ _ _ _ _ this]
  show ?thesis by (simp add: default_material_def)
qed

end
